theory Spec2Isabelle
  imports Complex_Main
begin

section \<open>Python values\<close>

text \<open>
  The module \<^verbatim>\<open>src/tools/training_tools.py\<close> computes with Python numbers and returns
  Python dictionaries. Numbers are modelled by their exact value, a rational: an \<^verbatim>\<open>int\<close>
  and a \<^verbatim>\<open>float\<close> of the same value are the same \<open>PNum\<close>, and every arithmetic
  operation is the exact one (the binary rounding of IEEE doubles is not part of the model).
  A dictionary is an association list in insertion order, so that the presence of a key
  and the value \<^verbatim>\<open>None\<close> under a key are different things. An f-string that
  interpolates a number is kept as its parts (\<open>PFmt\<close>): literal text, a number printed by
  \<^verbatim>\<open>str\<close>, or a number printed with a fixed count of decimals (\<^verbatim>\<open>{x:.1f}\<close>).
\<close>

datatype fpart = Lit string | Num rat | Fixed nat rat

datatype pyval =
    PNone
  | PBool bool
  | PNum rat
  | PStr string
  | PFmt "fpart list"
  | PList "pyval list"
  | PDict "(string \<times> pyval) list"

type_synonym pydict = "(string \<times> pyval) list"

datatype py_error =
  ZeroDivisionError | IndexError | KeyError | TypeError | ValueError | OverflowError

subsection \<open>Built-in operations\<close>

text \<open>
  \<^verbatim>\<open>round(x, n)\<close> rounds the exact value of \<open>x\<close> to \<open>n\<close> decimals, a tie going to the
  even neighbour.
\<close>

definition round_half_even :: "rat \<Rightarrow> int" where
  "round_half_even x =
     (let f = \<lfloor>x\<rfloor>; d = x - of_int f
      in if d < 1 / 2 then f else if 1 / 2 < d then f + 1 else if even f then f else f + 1)"

definition py_round :: "rat \<Rightarrow> nat \<Rightarrow> rat" where
  "py_round x ndigits = of_int (round_half_even (x * 10 ^ ndigits)) / 10 ^ ndigits"

text \<open>\<^verbatim>\<open>x // y\<close> and \<^verbatim>\<open>x % y\<close> for a divisor that is not zero; \<^verbatim>\<open>int(x)\<close> truncates.\<close>

definition py_floordiv :: "rat \<Rightarrow> rat \<Rightarrow> rat" where
  "py_floordiv x y = of_int \<lfloor>x / y\<rfloor>"

definition py_mod :: "rat \<Rightarrow> rat \<Rightarrow> rat" where
  "py_mod x y = x - y * of_int \<lfloor>x / y\<rfloor>"

definition py_int :: "rat \<Rightarrow> int" where
  "py_int x = (if 0 \<le> x then \<lfloor>x\<rfloor> else \<lceil>x\<rceil>)"

text \<open>\<^verbatim>\<open>str(i)\<close> of an integer, and the format \<^verbatim>\<open>{i:02d}\<close>.\<close>

fun str_nat :: "nat \<Rightarrow> string" where
  "str_nat n =
     (if n < 10 then [''0123456789'' ! n]
      else str_nat (n div 10) @ [''0123456789'' ! (n mod 10)])"

definition str_int :: "int \<Rightarrow> string" where
  "str_int i = (if i < 0 then CHR ''-'' # str_nat (nat (- i)) else str_nat (nat i))"

definition fmt_02d :: "int \<Rightarrow> string" where
  "fmt_02d i = (if 0 \<le> i \<and> i < 10 then CHR ''0'' # str_int i else str_int i)"

text \<open>The truth value of an optional number: \<^verbatim>\<open>None\<close> and zero are false.\<close>

definition truthy :: "rat option \<Rightarrow> bool" where
  "truthy v = (case v of None \<Rightarrow> False | Some x \<Rightarrow> x \<noteq> 0)"

text \<open>
  A dictionary display \<^verbatim>\<open>{..., **e}\<close>: each key of \<open>e\<close> replaces the value of a key that
  is there already, in place, and is appended otherwise.
\<close>

fun dict_set :: "string \<Rightarrow> pyval \<Rightarrow> pydict \<Rightarrow> pydict" where
  "dict_set k v [] = [(k, v)]"
| "dict_set k v ((k', v') # d) = (if k = k' then (k, v) # d else (k', v') # dict_set k v d)"

definition dict_unpack :: "pydict \<Rightarrow> pydict \<Rightarrow> pydict" where
  "dict_unpack d e = fold (\<lambda>kv. dict_set (fst kv) (snd kv)) e d"

section \<open>calculate_acwr\<close>

definition calculate_acwr :: "rat list \<Rightarrow> rat list \<Rightarrow> pydict" where
  "calculate_acwr last_7_days last_28_days =
     (let acute_load = sum_list last_7_days / 7;
          chronic_load = sum_list last_28_days / 28
      in if chronic_load = 0 then
           [(''status'', PStr ''error''),
            (''ratio'', PNum 0),
            (''risk_level'', PStr ''INSUFFICIENT_DATA''),
            (''recommendation'', PStr ''Need at least 4 weeks of training data''),
            (''acute_load'', PNum acute_load),
            (''chronic_load'', PNum 0)]
         else
           let ratio = acute_load / chronic_load;
               risk =
                 (if 1.5 < ratio then
                    (''HIGH'', ''REDUCE_LOAD_IMMEDIATELY - High injury risk detected'')
                  else if 1.3 < ratio then
                    (''ELEVATED'', ''CAUTION - Monitor closely and consider reducing load'')
                  else if ratio < 0.8 then
                    (''UNDERTRAINING'', ''Consider increasing training load gradually'')
                  else
                    (''SAFE'', ''Training load is well-balanced - continue current progression''))
           in [(''status'', PStr ''success''),
               (''ratio'', PNum (py_round ratio 2)),
               (''risk_level'', PStr (fst risk)),
               (''recommendation'', PStr (snd risk)),
               (''acute_load'', PNum (py_round acute_load 1)),
               (''chronic_load'', PNum (py_round chronic_load 1)),
               (''acute_weekly'', PNum (py_round (acute_load * 7) 1)),
               (''chronic_weekly'', PNum (py_round (chronic_load * 7) 1))])"

section \<open>adjust_paces_from_race\<close>

text \<open>The division in the first statement raises \<^verbatim>\<open>ZeroDivisionError\<close> for a zero distance.\<close>

definition adjust_paces_from_race :: "rat \<Rightarrow> rat \<Rightarrow> rat option \<Rightarrow> py_error + pydict" where
  "adjust_paces_from_race race_distance_miles race_time_minutes current_vdot =
     (if race_distance_miles = 0 then Inl ZeroDivisionError
      else
        let race_pace = race_time_minutes / race_distance_miles;
            estimated_vdot = 35 + (10 - race_pace) * 3.5;
            estimated_vdot = max 25 (min 85 estimated_vdot);
            easy_pace = race_pace + 1.5;
            tempo_pace = race_pace + 0.3;
            interval_pace = race_pace - 0.5;
            long_run_pace = race_pace + 1.0;
            marathon_prediction =
              (if 20 \<le> race_distance_miles then race_pace * 26.2 * 1.02
               else if 13 \<le> race_distance_miles then race_pace * 26.2 * 1.05
               else race_pace * 26.2 * 1.08)
        in Inr
          [(''status'', PStr ''success''),
           (''vdot'', PNum (py_round estimated_vdot 1)),
           (''race_pace_per_mile'', PNum (py_round race_pace 2)),
           (''paces'', PDict
              [(''easy'', PNum (py_round easy_pace 2)),
               (''tempo'', PNum (py_round tempo_pace 2)),
               (''interval'', PNum (py_round interval_pace 2)),
               (''long_run'', PNum (py_round long_run_pace 2))]),
           (''marathon_prediction_minutes'', PNum (py_round marathon_prediction 1)),
           (''marathon_prediction_time'',
              PStr (str_int (py_int (py_floordiv marathon_prediction 60)) @ '':'' @
                    fmt_02d (py_int (py_mod marathon_prediction 60)))),
           (''improvement'',
              (if truthy current_vdot then
                 PFmt [Lit ''VDOT improved from '', Num (the current_vdot), Lit '' to '',
                       Fixed 1 estimated_vdot]
               else PNone))])"

section \<open>calculate_weekly_mileage_progression\<close>

definition max_increase_rates :: "(string \<times> rat) list" where
  "max_increase_rates =
     [(''beginner'', 0.10), (''intermediate'', 0.12), (''advanced'', 0.15), (''elite'', 0.18)]"

text \<open>
  The body of the loop over \<^verbatim>\<open>range(1, weeks_available + 1)\<close>; the state is the carried
  mileage \<^verbatim>\<open>current\<close> and the plan built so far.
\<close>

definition week_step :: "rat \<Rightarrow> rat \<Rightarrow> int \<Rightarrow> rat \<times> pyval list \<Rightarrow> rat \<times> pyval list" where
  "week_step target_mileage max_increase week st =
     (let current = fst st;
          weekly_plan = snd st;
          upd =
            (if week mod 4 = 0 then (current * 0.8, ''recovery'')
             else
               let increase = min (current * max_increase) (target_mileage - current)
               in (min (current + increase) target_mileage, ''build''));
          current = fst upd;
          week_type = snd upd
      in (current,
          weekly_plan @
            [PDict [(''week'', PNum (of_int week)),
                    (''mileage'', PNum (py_round current 1)),
                    (''type'', PStr week_type)]]))"

text \<open>\<^verbatim>\<open>weekly_plan[-1]["mileage"]\<close>, with the exceptions of each subscript.\<close>

definition last_mileage :: "pyval list \<Rightarrow> py_error + rat" where
  "last_mileage weekly_plan =
     (if weekly_plan = [] then Inl IndexError
      else
        (case last weekly_plan of
          PDict e \<Rightarrow>
            (case map_of e ''mileage'' of
              None \<Rightarrow> Inl KeyError
            | Some (PNum m) \<Rightarrow> Inr m
            | Some _ \<Rightarrow> Inl TypeError)
        | _ \<Rightarrow> Inl TypeError))"

definition calculate_weekly_mileage_progression ::
    "rat \<Rightarrow> rat \<Rightarrow> int \<Rightarrow> string \<Rightarrow> py_error + pydict" where
  "calculate_weekly_mileage_progression current_mileage target_mileage weeks_available ability_level =
     (let max_increase =
            (case map_of max_increase_rates ability_level of Some r \<Rightarrow> r | None \<Rightarrow> 0.10);
          weekly_plan =
            snd (fold (week_step target_mileage max_increase) [1..weeks_available]
                   (current_mileage, []))
      in case last_mileage weekly_plan of
           Inl e \<Rightarrow> Inl e
         | Inr final_mileage \<Rightarrow>
             let is_safe = (target_mileage * 0.9 \<le> final_mileage)
             in Inr
               [(''status'', PStr ''success''),
                (''weekly_plan'', PList weekly_plan),
                (''final_mileage'', PNum (py_round final_mileage 1)),
                (''target_mileage'', PNum target_mileage),
                (''is_achievable'', PBool is_safe),
                (''max_weekly_increase'', PFmt [Num (max_increase * 100), Lit ''%'']),
                (''recommendation'',
                   PStr (if is_safe then ''Safe progression''
                         else ''Target too aggressive - need more weeks''))])"

section \<open>get_corrective_exercises\<close>

text \<open>
  The exercise library is a file outside the module; what reading it gives is an input
  of the model. \<open>FileNotFound\<close> is the \<^verbatim>\<open>FileNotFoundError\<close> of \<^verbatim>\<open>open\<close>,
  \<open>Raised msg\<close> is any other exception raised inside the \<^verbatim>\<open>try\<close> block, with its text
  (a file that is not JSON, a document that is not an object of objects), and
  \<open>Loaded lib\<close> is the dictionary of protocols that \<^verbatim>\<open>json.load\<close> returned.
\<close>

datatype load_outcome = FileNotFound | Raised string | Loaded "(string \<times> pydict) list"

definition get_corrective_exercises :: "load_outcome \<Rightarrow> string \<Rightarrow> pydict" where
  "get_corrective_exercises outcome injury_type =
     (case outcome of
        Loaded exercise_library \<Rightarrow>
          (case map_of exercise_library injury_type of
             Some protocol \<Rightarrow> dict_unpack [(''status'', PStr ''success'')] protocol
           | None \<Rightarrow>
               [(''status'', PStr ''error''),
                (''error_message'', PStr (''Unknown injury type: '' @ injury_type)),
                (''available_types'', PList (map (\<lambda>kv. PStr (fst kv)) exercise_library))])
      | FileNotFound \<Rightarrow>
          [(''status'', PStr ''error''),
           (''error_message'', PStr ''Exercise library file not found'')]
      | Raised msg \<Rightarrow>
          [(''status'', PStr ''error''),
           (''error_message'', PStr (''Error loading exercises: '' @ msg))])"

section \<open>The specification's vocabulary\<close>

text \<open>
  The specification speaks of the mean of a series, of a growth rate per ability level
  and of the mileage carried from week to week. These definitions follow
  its words; the theorems below compare them with the functions above.
\<close>

definition mean :: "rat list \<Rightarrow> rat" where
  "mean xs = sum_list xs / of_nat (length xs)"

definition max_rate :: "string \<Rightarrow> rat" where
  "max_rate ability_level =
     (if ability_level = ''beginner'' then 0.10
      else if ability_level = ''intermediate'' then 0.12
      else if ability_level = ''advanced'' then 0.15
      else if ability_level = ''elite'' then 0.18
      else 0.10)"

text \<open>
  The mileage carried after \<open>n\<close> weeks, before any rounding: a week whose number is a
  multiple of 4 is a recovery week at 0.8 times the previous value, every other week is
  a build week.
\<close>

fun carried :: "rat \<Rightarrow> rat \<Rightarrow> rat \<Rightarrow> nat \<Rightarrow> rat" where
  "carried current target rate 0 = current"
| "carried current target rate (Suc n) =
     (let previous = carried current target rate n
      in if int (Suc n) mod 4 = 0 then previous * 0.8
         else min (previous + min (previous * rate) (target - previous)) target)"

definition week_entry :: "rat \<Rightarrow> rat \<Rightarrow> rat \<Rightarrow> int \<Rightarrow> pyval" where
  "week_entry current target rate week =
     PDict [(''week'', PNum (of_int week)),
            (''mileage'', PNum (py_round (carried current target rate (nat week)) 1)),
            (''type'', PStr (if week mod 4 = 0 then ''recovery'' else ''build''))]"

section \<open>Example inputs\<close>

text \<open>
  Daily mileage series used by the examples below. Each 28-day series ends with the 7-day
  series it goes with. The ratio of the two means is 1.504 for the first pair and 1.496
  for the second.
\<close>

definition week_hi :: "rat list" where
  "week_hi = [7, 7, 7, 7, 7, 6, 6]"

definition month_hi :: "rat list" where
  "month_hi = [4, 4, 4, 4, 4, 4, 4, 4, 4, 4, 4, 4, 4, 4, 4, 3, 3, 3, 3, 3, 3,
               7, 7, 7, 7, 7, 6, 6]"

definition week_lo :: "rat list" where
  "week_lo = [7, 7, 7, 7, 7, 6, 5.75]"

definition month_lo :: "rat list" where
  "month_lo = [4, 4, 4, 4, 4, 4, 4, 4, 4, 4, 4, 4, 4, 4, 4, 3, 3, 3, 3, 3, 3.25,
               7, 7, 7, 7, 7, 6, 5.75]"

definition small_library :: "(string \<times> pydict) list" where
  "small_library =
     [(''IT_band'', [(''injury_name'', PStr ''IT Band Syndrome'')]),
      (''plantar_fasciitis'', [(''injury_name'', PStr ''Plantar Fasciitis'')]),
      (''achilles_tendonitis'', [(''injury_name'', PStr ''Achilles Tendonitis'')]),
      (''shin_splints'', [(''injury_name'', PStr ''Shin Splints'')]),
      (''runners_knee'', [(''injury_name'', PStr ''Runners Knee'')])]"

section \<open>Auxiliary facts\<close>

declare str_nat.simps [simp del]

subsection \<open>Rounding is monotone\<close>

lemma round_half_even_bounds:
  "\<lfloor>x\<rfloor> \<le> round_half_even x \<and> round_half_even x \<le> \<lfloor>x\<rfloor> + 1"
  by (simp add: round_half_even_def Let_def)

lemma round_half_even_mono:
  assumes "x \<le> y"
  shows "round_half_even x \<le> round_half_even y"
proof (cases "\<lfloor>x\<rfloor> = \<lfloor>y\<rfloor>")
  case True
  with assms show ?thesis
    by (auto simp add: round_half_even_def Let_def)
next
  case False
  from assms have "\<lfloor>x\<rfloor> \<le> \<lfloor>y\<rfloor>" by (rule floor_mono)
  with False have "\<lfloor>x\<rfloor> + 1 \<le> \<lfloor>y\<rfloor>" by simp
  with round_half_even_bounds [of x] round_half_even_bounds [of y]
  show ?thesis by linarith
qed

lemma py_round_mono:
  assumes "x \<le> y"
  shows "py_round x n \<le> py_round y n"
proof -
  from assms have "x * 10 ^ n \<le> y * 10 ^ n" by simp
  then have "round_half_even (x * 10 ^ n) \<le> round_half_even (y * 10 ^ n)"
    by (rule round_half_even_mono)
  then show ?thesis
    by (simp add: py_round_def divide_right_mono)
qed

subsection \<open>The loop of the progression\<close>

lemma max_increase_lookup:
  "(case map_of max_increase_rates lvl of Some r \<Rightarrow> r | None \<Rightarrow> 0.10) = max_rate lvl"
  by (simp add: max_increase_rates_def max_rate_def)

lemma max_rate_nonneg: "0 \<le> max_rate lvl"
  by (simp add: max_rate_def)

lemma week_step_carried:
  assumes "0 \<le> j"
  shows "week_step tgt r (j + 1) (carried c tgt r (nat j), plan) =
         (carried c tgt r (nat (j + 1)), plan @ [week_entry c tgt r (j + 1)])"
proof -
  from assms have n: "nat (j + 1) = Suc (nat j)" by simp
  from assms have i: "int (Suc (nat j)) = j + 1" by simp
  show ?thesis
    unfolding n by (simp add: week_step_def week_entry_def Let_def n i del: of_nat_Suc)
qed

lemma fold_week_step:
  assumes "0 \<le> i" and "i \<le> j"
  shows "fold (week_step tgt r) [i + 1..j] (carried c tgt r (nat i), plan) =
         (carried c tgt r (nat j), plan @ map (week_entry c tgt r) [i + 1..j])"
  using assms(2, 1)
proof (induction j rule: int_ge_induct)
  case base
  show ?case by simp
next
  case (step j)
  from step.hyps step.prems have j0: "0 \<le> j" by simp
  from step.hyps have split: "[i + 1..j + 1] = [i + 1..j] @ [j + 1]"
    by (simp add: upto_rec2)
  show ?case
    unfolding split using step.IH [OF step.prems] week_step_carried [OF j0]
    by simp
qed

lemma weekly_plan_eq:
  assumes "0 \<le> weeks"
  shows "fold (week_step tgt r) [1..weeks] (c, []) =
         (carried c tgt r (nat weeks), map (week_entry c tgt r) [1..weeks])"
  using fold_week_step [of 0 weeks tgt r c "[]"] assms by simp

lemma last_mileage_plan:
  assumes "1 \<le> weeks"
  shows "last_mileage (map (week_entry c tgt r) [1..weeks]) =
         Inr (py_round (carried c tgt r (nat weeks)) 1)"
proof -
  from assms have "[1..weeks] = [1..weeks - 1] @ [weeks]" by (simp add: upto_rec2)
  then have "last (map (week_entry c tgt r) [1..weeks]) = week_entry c tgt r weeks"
    by simp
  moreover from assms have "map (week_entry c tgt r) [1..weeks] \<noteq> []" by simp
  ultimately show ?thesis
    by (simp add: last_mileage_def week_entry_def)
qed

lemma progression_result:
  assumes "1 \<le> weeks"
  shows "calculate_weekly_mileage_progression c tgt weeks lvl = Inr
     [(''status'', PStr ''success''),
      (''weekly_plan'', PList (map (week_entry c tgt (max_rate lvl)) [1..weeks])),
      (''final_mileage'',
         PNum (py_round (py_round (carried c tgt (max_rate lvl) (nat weeks)) 1) 1)),
      (''target_mileage'', PNum tgt),
      (''is_achievable'',
         PBool (tgt * 0.9 \<le> py_round (carried c tgt (max_rate lvl) (nat weeks)) 1)),
      (''max_weekly_increase'', PFmt [Num (max_rate lvl * 100), Lit ''%'']),
      (''recommendation'',
         PStr (if tgt * 0.9 \<le> py_round (carried c tgt (max_rate lvl) (nat weeks)) 1
               then ''Safe progression'' else ''Target too aggressive - need more weeks''))]"
proof -
  from assms have w0: "0 \<le> weeks" by simp
  show ?thesis
    unfolding calculate_weekly_mileage_progression_def max_increase_lookup
    by (simp add: weekly_plan_eq [OF w0] last_mileage_plan [OF assms] Let_def)
qed

lemma progression_no_weeks:
  assumes "weeks \<le> 0"
  shows "calculate_weekly_mileage_progression c tgt weeks lvl = Inl IndexError"
  using assms by (simp add: calculate_weekly_mileage_progression_def last_mileage_def)

subsection \<open>Bounds on the carried mileage\<close>

lemma carried_nonneg:
  assumes "0 \<le> c" and "0 \<le> tgt" and "0 \<le> r"
  shows "0 \<le> carried c tgt r n"
proof (induction n)
  case 0
  from assms show ?case by simp
next
  case (Suc n)
  from Suc assms have "0 \<le> carried c tgt r n * r" by simp
  with Suc assms show ?case
    by (simp add: Let_def min_def del: of_nat_Suc)
qed

lemma carried_le_target:
  assumes "0 \<le> c" and "0 \<le> tgt" and "0 \<le> r" and "0 < n"
  shows "carried c tgt r n \<le> tgt"
  using assms(4)
proof (induction n)
  case 0
  then show ?case by simp
next
  case (Suc n)
  show ?case
  proof (cases "int (Suc n) mod 4 = 0")
    case True
    then have "0 < n" by (cases n) auto
    with Suc.IH have le: "carried c tgt r n \<le> tgt" by simp
    from carried_nonneg [OF assms(1-3)] have "0 \<le> carried c tgt r n" .
    then have "carried c tgt r n * 0.8 \<le> carried c tgt r n" by simp
    with le True show ?thesis by (simp add: Let_def del: of_nat_Suc)
  next
    case False
    then show ?thesis by (simp add: Let_def del: of_nat_Suc)
  qed
qed

subsection \<open>Evaluations at concrete inputs\<close>

lemma adjust_paces_18_144:
  "adjust_paces_from_race 18 144 None = Inr
     [(''status'', PStr ''success''),
      (''vdot'', PNum 42),
      (''race_pace_per_mile'', PNum 8),
      (''paces'', PDict
         [(''easy'', PNum 9.5), (''tempo'', PNum 8.3),
          (''interval'', PNum 7.5), (''long_run'', PNum 9)]),
      (''marathon_prediction_minutes'', PNum 220.1),
      (''marathon_prediction_time'', PStr ''3:40''),
      (''improvement'', PNone)]"
  by code_simp

lemma progression_30_32_46:
  "calculate_weekly_mileage_progression 30 32.46 1 ''intermediate'' = Inr
     [(''status'', PStr ''success''),
      (''weekly_plan'', PList
         [PDict [(''week'', PNum 1), (''mileage'', PNum 32.5), (''type'', PStr ''build'')]]),
      (''final_mileage'', PNum 32.5),
      (''target_mileage'', PNum 32.46),
      (''is_achievable'', PBool True),
      (''max_weekly_increase'', PFmt [Num 12, Lit ''%'']),
      (''recommendation'', PStr ''Safe progression'')]"
  by code_simp



lemma adjust_paces_minus_18_144:
  "adjust_paces_from_race (- 18) 144 None = Inr
     [(''status'', PStr ''success''),
      (''vdot'', PNum 85),
      (''race_pace_per_mile'', PNum (- 8)),
      (''paces'', PDict
         [(''easy'', PNum (- 6.5)), (''tempo'', PNum (- 7.7)),
          (''interval'', PNum (- 8.5)), (''long_run'', PNum (- 7))]),
      (''marathon_prediction_minutes'', PNum (- 226.4)),
      (''marathon_prediction_time'', PStr ''-4:13''),
      (''improvement'', PNone)]"
  by code_simp

section \<open>Pace estimation\<close>

text \<open>
  Claim C1, as the code has it. For a race of 18 miles in 144 minutes and no prior score,
  \<open>adjust_paces_from_race\<close> returns race pace 8.0, score 42.0, easy pace 9.5, tempo pace
  8.3, interval pace 7.5 and long-run pace 9.0. The race is shorter than 20 miles and at
  least 13, so the marathon prediction takes the factor 1.05, not 1.02: it is
  8.0 * 26.2 * 1.05 = 220.08 minutes, returned as 220.1 with the display string 3:40.
\<close>

theorem paces_for_18_miles_in_144_minutes:
  "\<exists>res paces. adjust_paces_from_race 18 144 None = Inr res
     \<and> map_of res ''race_pace_per_mile'' = Some (PNum 8.0)
     \<and> map_of res ''vdot'' = Some (PNum 42.0)
     \<and> map_of res ''paces'' = Some (PDict paces)
     \<and> map_of paces ''easy'' = Some (PNum 9.5)
     \<and> map_of paces ''tempo'' = Some (PNum 8.3)
     \<and> map_of paces ''interval'' = Some (PNum 7.5)
     \<and> map_of paces ''long_run'' = Some (PNum 9.0)
     \<and> map_of res ''marathon_prediction_minutes'' = Some (PNum 220.1)
     \<and> map_of res ''marathon_prediction_time'' = Some (PStr ''3:40'')"
  by (simp add: adjust_paces_18_144)

text \<open>
  Claim C1 as stated fails: for this input the prediction is neither 213.8 minutes nor
  the display string 3:33.
\<close>

theorem prediction_for_18_miles_is_not_213_8:
  "\<exists>res. adjust_paces_from_race 18 144 None = Inr res
     \<and> map_of res ''marathon_prediction_minutes'' \<noteq> Some (PNum 213.8)
     \<and> map_of res ''marathon_prediction_time'' \<noteq> Some (PStr ''3:33'')"
  by (simp add: adjust_paces_18_144)




section \<open>Workload assessment\<close>

text \<open>
  Claim C3, as the code has it. When the 28-day mean is zero, \<open>calculate_acwr\<close> returns,
  without raising, a result whose status is \<open>error\<close>, with ratio 0, risk level
  INSUFFICIENT_DATA, the recommendation that at least 4 weeks of training data are
  needed, the unrounded 7-day load and a 28-day load of 0. The result has these six keys
  and no others: the two weekly loads are not part of it.
\<close>

theorem acwr_without_chronic_load:
  assumes "mean last28 = 0"
  shows "calculate_acwr last7 last28 =
     [(''status'', PStr ''error''),
      (''ratio'', PNum 0),
      (''risk_level'', PStr ''INSUFFICIENT_DATA''),
      (''recommendation'', PStr ''Need at least 4 weeks of training data''),
      (''acute_load'', PNum (sum_list last7 / 7)),
      (''chronic_load'', PNum 0)]"
  using assms by (auto simp add: calculate_acwr_def mean_def Let_def)

text \<open>The theorem at a week of 14 miles after 28 days without any.\<close>

theorem acwr_without_chronic_load_witness:
  "mean (replicate 28 0) = 0
   \<and> calculate_acwr [3, 0, 4, 0, 5, 0, 2] (replicate 28 0) =
     [(''status'', PStr ''error''),
      (''ratio'', PNum 0),
      (''risk_level'', PStr ''INSUFFICIENT_DATA''),
      (''recommendation'', PStr ''Need at least 4 weeks of training data''),
      (''acute_load'', PNum 2),
      (''chronic_load'', PNum 0)]"
proof -
  have h: "mean (replicate 28 0) = 0" by code_simp
  from acwr_without_chronic_load [OF h, of "[3, 0, 4, 0, 5, 0, 2]"] show ?thesis
    using h by simp
qed

text \<open>
  Claim C3 as stated fails: for 7 and 28 days of zero mileage the status of the result
  is \<open>error\<close>, and the keys of the two weekly loads are absent.
\<close>

theorem insufficient_data_has_error_status:
  "mean (replicate 28 0) = 0
   \<and> map_of (calculate_acwr (replicate 7 0) (replicate 28 0)) ''status'' = Some (PStr ''error'')
   \<and> map_of (calculate_acwr (replicate 7 0) (replicate 28 0)) ''acute_weekly'' = None
   \<and> map_of (calculate_acwr (replicate 7 0) (replicate 28 0)) ''chronic_weekly'' = None"
  by code_simp

text \<open>
  Claim C10, as the code has it. The risk level comes from the unrounded ratio and the
  returned ratio is rounded to two decimals, so the returned ratio does not determine the
  risk level: the two pairs of series below have the ratios 1.496 and 1.504, both are
  returned as 1.5, and the first is ELEVATED while the second is HIGH.
\<close>

theorem rounded_ratio_does_not_determine_risk_level:
  "mean week_lo / mean month_lo = 1.496
   \<and> mean week_hi / mean month_hi = 1.504
   \<and> map_of (calculate_acwr week_lo month_lo) ''ratio'' = Some (PNum 1.5)
   \<and> map_of (calculate_acwr week_hi month_hi) ''ratio'' = Some (PNum 1.5)
   \<and> map_of (calculate_acwr week_lo month_lo) ''risk_level'' = Some (PStr ''ELEVATED'')
   \<and> map_of (calculate_acwr week_hi month_hi) ''risk_level'' = Some (PStr ''HIGH'')"
  by code_simp

text \<open>
  The example of claim C10 as stated fails: the series with the ratio 1.496 is not
  classified SAFE.
\<close>

theorem ratio_1_496_is_not_safe:
  "mean week_lo / mean month_lo = 1.496
   \<and> map_of (calculate_acwr week_lo month_lo) ''risk_level'' \<noteq> Some (PStr ''SAFE'')"
  by code_simp

section \<open>Progression planning\<close>

text \<open>
  Claim C6, as the code has it. For a current mileage and a target that are not
  negative and at least one week, every entry of the returned plan records the rounding
  to one decimal of a carried mileage that does not exceed the target; so no recorded
  mileage exceeds the target rounded to one decimal.
\<close>

theorem recorded_mileage_within_rounded_target:
  assumes "0 \<le> current" and "0 \<le> target" and "1 \<le> weeks"
  shows "\<exists>res plan. calculate_weekly_mileage_progression current target weeks level = Inr res
    \<and> map_of res ''weekly_plan'' = Some (PList plan)
    \<and> length plan = nat weeks
    \<and> (\<forall>e \<in> set plan. \<exists>kvs x. e = PDict kvs
          \<and> map_of kvs ''mileage'' = Some (PNum (py_round x 1))
          \<and> x \<le> target
          \<and> py_round x 1 \<le> py_round target 1)"
proof -
  let ?r = "max_rate level"
  let ?plan = "map (week_entry current target ?r) [1..weeks]"
  have "\<exists>kvs x. e = PDict kvs \<and> map_of kvs ''mileage'' = Some (PNum (py_round x 1))
          \<and> x \<le> target \<and> py_round x 1 \<le> py_round target 1"
    if "e \<in> set ?plan" for e
  proof -
    from that obtain w where w: "1 \<le> w" "w \<le> weeks" and e: "e = week_entry current target ?r w"
      by auto
    from w have "0 < nat w" by simp
    with assms(1, 2) max_rate_nonneg [of level]
    have le: "carried current target ?r (nat w) \<le> target"
      by (rule carried_le_target)
    then have rle: "py_round (carried current target ?r (nat w)) 1 \<le> py_round target 1"
      by (rule py_round_mono)
    let ?kvs = "[(''week'', PNum (of_int w)),
                 (''mileage'', PNum (py_round (carried current target ?r (nat w)) 1)),
                 (''type'', PStr (if w mod 4 = 0 then ''recovery'' else ''build''))]"
    from e have "e = PDict ?kvs"
      by (simp only: week_entry_def)
    moreover have "map_of ?kvs ''mileage'' =
        Some (PNum (py_round (carried current target ?r (nat w)) 1))"
      by simp
    ultimately show ?thesis
      using le rle by blast
  qed
  moreover from assms(3) have "length ?plan = nat weeks" by simp
  ultimately show ?thesis
    using progression_result [OF assms(3), of current target level] by simp
qed

text \<open>The theorem for 12 weeks from 25 to 50 miles at the intermediate level.\<close>

theorem recorded_mileage_witness:
  "(0::rat) \<le> 25 \<and> (0::rat) \<le> 50 \<and> (1::int) \<le> 12
   \<and> py_round 50 1 = 50
   \<and> (\<exists>res plan. calculate_weekly_mileage_progression 25 50 12 ''intermediate'' = Inr res
        \<and> map_of res ''weekly_plan'' = Some (PList plan)
        \<and> length plan = nat 12
        \<and> (\<forall>e \<in> set plan. \<exists>kvs x. e = PDict kvs
              \<and> map_of kvs ''mileage'' = Some (PNum (py_round x 1))
              \<and> x \<le> 50
              \<and> py_round x 1 \<le> py_round 50 1))"
proof -
  have h1: "(0::rat) \<le> 25" and h2: "(0::rat) \<le> 50" and h3: "(1::int) \<le> 12"
    by simp_all
  have e: "py_round 50 1 = 50" by code_simp
  show ?thesis
    by (intro conjI h1 h2 h3 e
          recorded_mileage_within_rounded_target [OF h1 h2 h3, of "''intermediate''"])
qed

text \<open>
  Claim C6 as stated fails: a recorded mileage can exceed the target. For one week from
  30 miles to a target of 32.46 the plan records 32.5.
\<close>

theorem recorded_mileage_can_exceed_target:
  "(0::rat) \<le> 30 \<and> (0::rat) \<le> 32.46 \<and> (1::int) \<le> 1
   \<and> (\<exists>res. calculate_weekly_mileage_progression 30 32.46 1 ''intermediate'' = Inr res
        \<and> map_of res ''weekly_plan'' =
            Some (PList [PDict [(''week'', PNum 1), (''mileage'', PNum 32.5),
                                (''type'', PStr ''build'')]]))
   \<and> (32.46::rat) < 32.5"
  using progression_30_32_46 by simp

section \<open>Inputs out of range\<close>

text \<open>
  Claim C7, as the code has it. With a distance of zero \<open>adjust_paces_from_race\<close> raises
  \<open>ZeroDivisionError\<close>. A negative distance is not refused: whenever the call returns,
  the status of the result is \<open>success\<close>, and for 144 minutes over -18 miles it returns
  the race pace -8.0. With no week or a negative count of weeks
  \<open>calculate_weekly_mileage_progression\<close> raises \<open>IndexError\<close>.
\<close>

theorem nonpositive_distance_and_weeks:
  "adjust_paces_from_race 0 t v = Inl ZeroDivisionError
   \<and> (\<forall>res. d < 0 \<and> adjust_paces_from_race d t v = Inr res \<longrightarrow>
          map_of res ''status'' = Some (PStr ''success''))
   \<and> (\<exists>res. adjust_paces_from_race (- 18) 144 None = Inr res
          \<and> map_of res ''status'' = Some (PStr ''success'')
          \<and> map_of res ''race_pace_per_mile'' = Some (PNum (- 8)))
   \<and> (weeks \<le> 0 \<longrightarrow>
        calculate_weekly_mileage_progression current target weeks level = Inl IndexError)"
proof -
  have zero: "adjust_paces_from_race 0 t v = Inl ZeroDivisionError"
    by (simp add: adjust_paces_from_race_def)
  have negative: "\<forall>res. d < 0 \<and> adjust_paces_from_race d t v = Inr res \<longrightarrow>
          map_of res ''status'' = Some (PStr ''success'')"
    by (auto simp add: adjust_paces_from_race_def Let_def)
  have example: "\<exists>res. adjust_paces_from_race (- 18) 144 None = Inr res
          \<and> map_of res ''status'' = Some (PStr ''success'')
          \<and> map_of res ''race_pace_per_mile'' = Some (PNum (- 8))"
    using adjust_paces_minus_18_144 by simp
  have no_weeks: "weeks \<le> 0 \<longrightarrow>
        calculate_weekly_mileage_progression current target weeks level = Inl IndexError"
    by (simp add: progression_no_weeks)
  from zero negative example no_weeks show ?thesis
    by (intro conjI)
qed

text \<open>
  The theorem at 144 minutes over 0 and over -18 miles, and at 0 weeks from 25 to 50
  miles.
\<close>

theorem nonpositive_distance_and_weeks_witness:
  "(- 18::rat) < 0 \<and> (0::int) \<le> 0
   \<and> adjust_paces_from_race 0 144 None = Inl ZeroDivisionError
   \<and> (\<exists>res. adjust_paces_from_race (- 18) 144 None = Inr res
          \<and> map_of res ''status'' = Some (PStr ''success''))
   \<and> calculate_weekly_mileage_progression 25 50 0 ''intermediate'' = Inl IndexError"
proof -
  note t = nonpositive_distance_and_weeks
         [where t = 144 and v = None and d = "- 18" and weeks = 0
            and current = 25 and target = 50 and level = "''intermediate''"]
  from t have a: "adjust_paces_from_race 0 144 None = Inl ZeroDivisionError"
    by blast
  from t have b: "\<exists>res. adjust_paces_from_race (- 18) 144 None = Inr res
          \<and> map_of res ''status'' = Some (PStr ''success'')"
    by blast
  from t have c: "calculate_weekly_mileage_progression 25 50 0 ''intermediate'' = Inl IndexError"
    by simp
  from a b c show ?thesis by simp
qed

text \<open>
  Claim C7 as stated fails: a distance of zero and a count of zero weeks each end in an
  exception, and a negative distance gives a result of status \<open>success\<close>.
\<close>

theorem invalid_input_is_not_reported:
  "adjust_paces_from_race 0 144 None = Inl ZeroDivisionError
   \<and> calculate_weekly_mileage_progression 25 50 0 ''intermediate'' = Inl IndexError
   \<and> (\<exists>res. adjust_paces_from_race (- 18) 144 None = Inr res
          \<and> map_of res ''status'' = Some (PStr ''success''))"
  by (simp add: adjust_paces_from_race_def progression_no_weeks Let_def)

section \<open>Exercise protocols\<close>

text \<open>
  Claim C8. For a key that is not in the library, \<open>get_corrective_exercises\<close> returns an
  error whose \<open>available_types\<close> are the keys of the library, in order. When the library
  cannot be read, because the file is missing or because reading it raises, the function
  returns an error without \<open>available_types\<close>, so the two kinds of error differ.
\<close>

theorem unknown_injury_lists_library_keys:
  assumes "map_of library injury_type = None"
  shows "map_of (get_corrective_exercises (Loaded library) injury_type) ''status''
           = Some (PStr ''error'')
    \<and> map_of (get_corrective_exercises (Loaded library) injury_type) ''available_types''
           = Some (PList (map PStr (map fst library)))
    \<and> map_of (get_corrective_exercises FileNotFound k) ''status'' = Some (PStr ''error'')
    \<and> map_of (get_corrective_exercises FileNotFound k) ''available_types'' = None
    \<and> map_of (get_corrective_exercises (Raised msg) k) ''status'' = Some (PStr ''error'')
    \<and> map_of (get_corrective_exercises (Raised msg) k) ''available_types'' = None
    \<and> get_corrective_exercises FileNotFound k
         \<noteq> get_corrective_exercises (Loaded library) injury_type
    \<and> get_corrective_exercises (Raised msg) k
         \<noteq> get_corrective_exercises (Loaded library) injury_type"
  using assms by (simp add: get_corrective_exercises_def comp_def)

text \<open>The theorem at a library of five protocols and a key that is none of them.\<close>

theorem unknown_injury_witness:
  "map_of small_library ''nonexistent_injury'' = None
   \<and> map_of (get_corrective_exercises (Loaded small_library) ''nonexistent_injury'')
        ''available_types''
      = Some (PList [PStr ''IT_band'', PStr ''plantar_fasciitis'', PStr ''achilles_tendonitis'',
                     PStr ''shin_splints'', PStr ''runners_knee''])
   \<and> map_of (get_corrective_exercises FileNotFound ''nonexistent_injury'') ''available_types''
      = None
   \<and> map_of (get_corrective_exercises (Raised ''Expecting value'') ''nonexistent_injury'')
        ''available_types''
      = None"
proof -
  have h: "map_of small_library ''nonexistent_injury'' = None"
    by (simp add: small_library_def)
  have m: "map PStr (map fst small_library) =
      [PStr ''IT_band'', PStr ''plantar_fasciitis'', PStr ''achilles_tendonitis'',
       PStr ''shin_splints'', PStr ''runners_knee'']"
    by (simp add: small_library_def)
  from unknown_injury_lists_library_keys
         [OF h, of "''nonexistent_injury''" "''Expecting value''"]
  show ?thesis unfolding m using h by simp
qed

end
